theory Spec2Isabelle
  imports Main "HOL-Library.AList"
begin

section \<open>JSON values and the Python operations the scraper applies to them\<close>

text \<open>
  The snapshot files, the cache file and the records scraped from the site are JSON
  documents that the program reads with \<^verbatim>\<open>json.load\<close>.  A JSON object is Python's
  \<^verbatim>\<open>dict\<close>, kept here as an association list in insertion order; \<^verbatim>\<open>null\<close>
  is Python's \<^verbatim>\<open>None\<close>.  Numbers are integers, which is what page numbers, counts
  and attempt counters are.
\<close>

datatype json =
    JNull
  | JBool bool
  | JInt int
  | JStr string
  | JList "json list"
  | JObj "(string \<times> json) list"

datatype error = TypeError | KeyError | AttributeError | OSError

text \<open>Python's truth value of an object: \<^verbatim>\<open>bool(x)\<close>.\<close>

fun truthy :: "json \<Rightarrow> bool" where
  "truthy JNull = False"
| "truthy (JBool b) = b"
| "truthy (JInt n) = (n \<noteq> 0)"
| "truthy (JStr s) = (s \<noteq> [])"
| "truthy (JList xs) = (xs \<noteq> [])"
| "truthy (JObj kvs) = (kvs \<noteq> [])"

text \<open>\<^verbatim>\<open>d.get(k)\<close> and \<^verbatim>\<open>d.get(k, default)\<close> on a dict.\<close>

definition dict_get_default :: "(string \<times> json) list \<Rightarrow> string \<Rightarrow> json \<Rightarrow> json" where
  "dict_get_default d k dflt = (case map_of d k of None \<Rightarrow> dflt | Some v \<Rightarrow> v)"

definition dict_get :: "(string \<times> json) list \<Rightarrow> string \<Rightarrow> json" where
  "dict_get d k = dict_get_default d k JNull"

text \<open>
  The values \<^verbatim>\<open>len\<close> accepts; on the others it raises \<^verbatim>\<open>TypeError\<close>.
\<close>

fun has_len :: "json \<Rightarrow> bool" where
  "has_len (JStr s) = True"
| "has_len (JList xs) = True"
| "has_len (JObj kvs) = True"
| "has_len _ = False"

text \<open>
  The numeric value of an object that Python arithmetic accepts: an \<^verbatim>\<open>int\<close>, or a
  \<^verbatim>\<open>bool\<close> (a subclass of \<^verbatim>\<open>int\<close>).  On every other JSON value \<^verbatim>\<open>x + 1\<close>
  raises \<^verbatim>\<open>TypeError\<close>.
\<close>

fun py_num :: "json \<Rightarrow> int option" where
  "py_num (JInt n) = Some n"
| "py_num (JBool b) = Some (if b then 1 else 0)"
| "py_num _ = None"

subsection \<open>Strings\<close>

text \<open>\<^verbatim>\<open>s.startswith(p)\<close>, \<^verbatim>\<open>s.endswith(p)\<close> and the substring test \<^verbatim>\<open>p in s\<close>.\<close>

definition startswith :: "string \<Rightarrow> string \<Rightarrow> bool" where
  "startswith s p = (take (length p) s = p)"

definition endswith :: "string \<Rightarrow> string \<Rightarrow> bool" where
  "endswith s p = (length p \<le> length s \<and> drop (length s - length p) s = p)"

fun str_contains :: "string \<Rightarrow> string \<Rightarrow> bool" where
  "str_contains [] p = (p = [])"
| "str_contains (c # cs) p = (startswith (c # cs) p \<or> str_contains cs p)"

text \<open>\<^verbatim>\<open>s.split(sep)\<close> for a one-character separator: never an empty list.\<close>

fun split_on :: "char \<Rightarrow> string \<Rightarrow> string list" where
  "split_on sep [] = [[]]"
| "split_on sep (c # cs) =
     (if c = sep then [] # split_on sep cs
      else (case split_on sep cs of
              [] \<Rightarrow> [[c]]
            | w # ws \<Rightarrow> (c # w) # ws))"

text \<open>\<^verbatim>\<open>str(n)\<close> for an integer, as the f-string \<^verbatim>\<open>f'page_{page_num}_'\<close> formats it.\<close>

definition digit_char :: "nat \<Rightarrow> char" where
  "digit_char n = ''0123456789'' ! n"

function str_nat :: "nat \<Rightarrow> string" where
  "str_nat n = (if n < 10 then [digit_char n] else str_nat (n div 10) @ [digit_char (n mod 10)])"
  by pat_completeness auto
termination
  by (relation "measure id") auto

definition str_int :: "int \<Rightarrow> string" where
  "str_int i = (if i < 0 then CHR ''-'' # str_nat (nat (- i)) else str_nat (nat i))"

subsection \<open>The results directory\<close>

text \<open>
  What \<^verbatim>\<open>open\<close> followed by \<^verbatim>\<open>json.load\<close> does with one file: the text is not
  JSON (\<^verbatim>\<open>json.JSONDecodeError\<close>), another exception is raised (the file cannot be
  opened or decoded), or the document is parsed.  A directory does not exist, cannot be
  listed, or lists its files in the order \<^verbatim>\<open>os.listdir\<close> gives them.
\<close>

datatype file_read = JsonDecodeError | OtherError | Parsed json

datatype directory = NoDirectory | ListingFails | Listing "(string \<times> file_read) list"

section \<open>helpers/search\_page\_helper.py\<close>

definition key_overview_fields :: "string list" where
  "key_overview_fields = [''founded'', ''overview'', ''exits'', ''investment_stages'']"

text \<open>
  \<^verbatim>\<open>determine_vc_status(vc_data)\<close>: not a dict gives "not\_scraped"; otherwise the record
  is "scraped" when \<^verbatim>\<open>any(vc_data.get(field) for field in key_overview_fields)\<close> and
  \<^verbatim>\<open>bool(vc_data.get('investments'))\<close> both hold.
\<close>

definition determine_vc_status :: "json \<Rightarrow> string" where
  "determine_vc_status vc_data =
     (case vc_data of
        JObj d \<Rightarrow>
          (let has_key_overview = list_ex (\<lambda>field. truthy (dict_get d field)) key_overview_fields;
               has_investments = truthy (dict_get d ''investments'')
           in if has_key_overview \<and> has_investments then ''scraped'' else ''not_scraped'')
      | _ \<Rightarrow> ''not_scraped'')"

text \<open>
  The identifier of a link:
  \<^verbatim>\<open>url.split('/')[-1] if '/' in url else url\<close>.
\<close>

definition vc_id_of_url :: "string \<Rightarrow> string" where
  "vc_id_of_url url = (if CHR ''/'' \<in> set url then last (split_on CHR ''/'' url) else url)"

text \<open>
  The first loop of \<^verbatim>\<open>filter_unscraped_vcs\<close> builds the set \<^verbatim>\<open>scraped_vc_ids\<close>.
  Only dicts with a truthy \<^verbatim>\<open>vc_id\<close> that \<^verbatim>\<open>determine_vc_status\<close> classifies as
  scraped are added; \<^verbatim>\<open>set.add\<close> raises \<^verbatim>\<open>TypeError\<close> on a list or a dict, which are
  not hashable.
\<close>

fun hashable :: "json \<Rightarrow> bool" where
  "hashable (JList xs) = False"
| "hashable (JObj kvs) = False"
| "hashable _ = True"

fun scraped_ids_loop :: "json set \<Rightarrow> json list \<Rightarrow> error + json set" where
  "scraped_ids_loop scraped_vc_ids [] = Inr scraped_vc_ids"
| "scraped_ids_loop scraped_vc_ids (vc # rest) =
     (case vc of
        JObj d \<Rightarrow>
          (let vc_id = dict_get_default d ''vc_id'' (JStr []) in
           if truthy vc_id then
             (if determine_vc_status vc = ''scraped'' then
                (if hashable vc_id then scraped_ids_loop (insert vc_id scraped_vc_ids) rest
                 else Inl TypeError)
              else scraped_ids_loop scraped_vc_ids rest)
           else scraped_ids_loop scraped_vc_ids rest)
      | _ \<Rightarrow> scraped_ids_loop scraped_vc_ids rest)"

text \<open>
  \<^verbatim>\<open>for vc in existing_vcs\<close>: a list gives its elements, a dict its keys and a string
  its characters (strings, so none of them is a dict); the other truthy values cannot
  be iterated.
\<close>

fun py_iter :: "json \<Rightarrow> error + json list" where
  "py_iter (JList xs) = Inr xs"
| "py_iter (JObj kvs) = Inr (map (\<lambda>kv. JStr (fst kv)) kvs)"
| "py_iter (JStr s) = Inr (map (\<lambda>c. JStr [c]) s)"
| "py_iter _ = Inl TypeError"

text \<open>The second loop keeps the links whose identifier is not in the set.\<close>

fun links_loop :: "json set \<Rightarrow> string list \<Rightarrow> string list \<Rightarrow> string list" where
  "links_loop scraped_vc_ids vcs_to_scrape [] = vcs_to_scrape"
| "links_loop scraped_vc_ids vcs_to_scrape (url # rest) =
     (let vc_id = vc_id_of_url url in
      if JStr vc_id \<notin> scraped_vc_ids
      then links_loop scraped_vc_ids (vcs_to_scrape @ [url]) rest
      else links_loop scraped_vc_ids vcs_to_scrape rest)"

text \<open>
  \<^verbatim>\<open>filter_unscraped_vcs(all_vc_links, existing_vcs)\<close>.  The function has no handler of
  its own, so an exception of the first loop reaches the caller: \<open>Inl\<close>.
\<close>

definition filter_unscraped_vcs :: "string list \<Rightarrow> json \<Rightarrow> error + string list" where
  "filter_unscraped_vcs all_vc_links existing_vcs =
     (if \<not> truthy existing_vcs then Inr all_vc_links
      else (case py_iter existing_vcs of
              Inl e \<Rightarrow> Inl e
            | Inr vcs \<Rightarrow>
                (case scraped_ids_loop {} vcs of
                   Inl e \<Rightarrow> Inl e
                 | Inr scraped_vc_ids \<Rightarrow> Inr (links_loop scraped_vc_ids [] all_vc_links))))"

text \<open>
  Reading a snapshot's item list: the items that \<^verbatim>\<open>determine_vc_status\<close> classifies as
  scraped, the \<^verbatim>\<open>vc_id\<close> of an item as the first loop reads it
  (\<^verbatim>\<open>vc.get('vc_id', '')\<close>), and the identifiers the first loop collects.
\<close>

definition scraped_items :: "json list \<Rightarrow> json list" where
  "scraped_items vcs = filter (\<lambda>vc. determine_vc_status vc = ''scraped'') vcs"

definition vc_id_of_item :: "json \<Rightarrow> json" where
  "vc_id_of_item vc =
     (case vc of JObj d \<Rightarrow> dict_get_default d ''vc_id'' (JStr []) | _ \<Rightarrow> JStr [])"

definition scraped_id_set :: "json list \<Rightarrow> json set" where
  "scraped_id_set vcs = {i \<in> vc_id_of_item ` set (scraped_items vcs). truthy i}"

text \<open>
  \<^verbatim>\<open>load_existing_page_data(page_num)\<close> reads the directory
  \<^verbatim>\<open>self.scraper.results_dir\<close> and returns \<^verbatim>\<open>(vcs_list, status)\<close>, where
  \<^verbatim>\<open>(None, None)\<close> is \<open>(JNull, JNull)\<close>.  Every exception inside is caught and gives
  \<^verbatim>\<open>(None, None)\<close>; the \<^verbatim>\<open>print\<close> of \<^verbatim>\<open>len(vcs_list)\<close> raises one when the value
  under \<^verbatim>\<open>"vcs"\<close> has no length.
\<close>

definition page_file_name :: "int \<Rightarrow> string \<Rightarrow> bool" where
  "page_file_name page_num filename =
     (startswith filename (''page_'' @ str_int page_num @ ''_'') \<and> endswith filename ''.json'')"

definition legacy_status :: "string \<Rightarrow> json" where
  "legacy_status filename =
     JStr (if str_contains filename ''completed'' then ''completed'' else ''in_progress'')"

fun existing_page_loop :: "int \<Rightarrow> (string \<times> file_read) list \<Rightarrow> json \<times> json" where
  "existing_page_loop page_num [] = (JNull, JNull)"
| "existing_page_loop page_num ((filename, f) # rest) =
     (if page_file_name page_num filename then
        (case f of
           JsonDecodeError \<Rightarrow> (JNull, JNull)
         | OtherError \<Rightarrow> (JNull, JNull)
         | Parsed page_data \<Rightarrow>
             (case page_data of
                JObj d \<Rightarrow>
                  (case map_of d ''vcs'' of
                     Some vcs_list \<Rightarrow>
                       (case dict_get_default d ''metadata'' (JObj []) of
                          JObj m \<Rightarrow>
                            (if has_len vcs_list
                             then (vcs_list, dict_get_default m ''status'' (JStr ''unknown''))
                             else (JNull, JNull))
                        | _ \<Rightarrow> (JNull, JNull))
                   | None \<Rightarrow> existing_page_loop page_num rest)
              | JList xs \<Rightarrow> (page_data, legacy_status filename)
              | _ \<Rightarrow> existing_page_loop page_num rest))
      else existing_page_loop page_num rest)"

definition load_existing_page_data :: "directory \<Rightarrow> int \<Rightarrow> json \<times> json" where
  "load_existing_page_data results_dir page_num =
     (case results_dir of
        NoDirectory \<Rightarrow> (JNull, JNull)
      | ListingFails \<Rightarrow> (JNull, JNull)
      | Listing files \<Rightarrow> existing_page_loop page_num files)"

section \<open>helpers/vc\_cache\_manager.py\<close>

text \<open>
  The manager holds \<^verbatim>\<open>cache_data\<close>, the document loaded from the cache file.
  \<^verbatim>\<open>_load_cache\<close>: a missing file gives the empty dict, and so does every exception,
  among them the \<^verbatim>\<open>TypeError\<close> of \<^verbatim>\<open>len(self.cache_data)\<close> in the \<^verbatim>\<open>print\<close> after
  a load of a document that has no length.
\<close>

datatype cache_file = NoCacheFile | CacheReadError | CacheContents json

definition load_cache :: "cache_file \<Rightarrow> json" where
  "load_cache f =
     (case f of
        NoCacheFile \<Rightarrow> JObj []
      | CacheReadError \<Rightarrow> JObj []
      | CacheContents j \<Rightarrow> (if has_len j then j else JObj []))"

text \<open>
  \<^verbatim>\<open>add_vc\<close> assigns a new entry under the slug, whether or not the slug is there, and
  returns what \<^verbatim>\<open>_save_cache\<close> returns (\<open>save_ok\<close>: whether the file could be written).
  The two timestamps are the two calls of \<^verbatim>\<open>datetime.now()\<close>.  Item assignment with a
  string key raises \<^verbatim>\<open>TypeError\<close> on everything but a dict; the handler returns
  \<^verbatim>\<open>False\<close>.
\<close>

definition new_entry :: "string \<Rightarrow> string \<Rightarrow> string \<Rightarrow> int option \<Rightarrow> string \<Rightarrow> string \<Rightarrow> json" where
  "new_entry slug name url first_seen_page now1 now2 =
     JObj [(''name'', JStr name),
           (''url'', JStr url),
           (''slug'', JStr slug),
           (''first_seen_page'', (case first_seen_page of None \<Rightarrow> JNull | Some p \<Rightarrow> JInt p)),
           (''scraping_status'', JStr ''pending''),
           (''first_discovered'', JStr now1),
           (''last_updated'', JStr now2),
           (''last_scraped'', JNull),
           (''scrape_attempts'', JInt 0),
           (''data_hash'', JNull)]"

definition add_vc ::
  "json \<Rightarrow> string \<Rightarrow> string \<Rightarrow> string \<Rightarrow> int option \<Rightarrow> string \<Rightarrow> string \<Rightarrow> bool \<Rightarrow> json \<times> bool" where
  "add_vc cache_data slug name url first_seen_page now1 now2 save_ok =
     (case cache_data of
        JObj d \<Rightarrow>
          (JObj (AList.update slug (new_entry slug name url first_seen_page now1 now2) d), save_ok)
      | _ \<Rightarrow> (cache_data, False))"

text \<open>
  \<^verbatim>\<open>get_vc_status\<close>: \<^verbatim>\<open>self.cache_data.get(slug, {}).get("scraping_status")\<close>.
  Only a dict has \<^verbatim>\<open>get\<close>; the method has no handler.
\<close>

definition get_vc_status :: "json \<Rightarrow> string \<Rightarrow> error + json" where
  "get_vc_status cache_data slug =
     (case cache_data of
        JObj d \<Rightarrow>
          (case dict_get_default d slug (JObj []) of
             JObj e \<Rightarrow> Inr (dict_get e ''scraping_status'')
           | _ \<Rightarrow> Inl AttributeError)
      | _ \<Rightarrow> Inl AttributeError)"

definition is_vc_completed :: "json \<Rightarrow> string \<Rightarrow> error + bool" where
  "is_vc_completed cache_data slug =
     (case get_vc_status cache_data slug of
        Inl e \<Rightarrow> Inl e
      | Inr st \<Rightarrow> Inr (st = JStr ''completed''))"

text \<open>
  \<^verbatim>\<open>mark_vc_completed\<close>.  When \<^verbatim>\<open>cache_data\<close> is not a dict, either the test
  \<^verbatim>\<open>slug in self.cache_data\<close> is false or raises, or the subscript
  \<^verbatim>\<open>self.cache_data[slug]\<close> raises: the result is \<^verbatim>\<open>False\<close> with nothing changed.
  The same holds when the entry is not a dict, since the first item assignment raises.
  \<^verbatim>\<open>if data_hash:\<close> is false for \<^verbatim>\<open>None\<close> and for the empty string.
\<close>

definition mark_vc_completed ::
  "json \<Rightarrow> string \<Rightarrow> string option \<Rightarrow> string \<Rightarrow> string \<Rightarrow> bool \<Rightarrow> json \<times> bool" where
  "mark_vc_completed cache_data slug data_hash now1 now2 save_ok =
     (case cache_data of
        JObj d \<Rightarrow>
          (case map_of d slug of
             None \<Rightarrow> (cache_data, False)
           | Some (JObj e) \<Rightarrow>
               (let e1 = AList.update ''scraping_status'' (JStr ''completed'') e;
                    e2 = AList.update ''last_scraped'' (JStr now1) e1;
                    e3 = AList.update ''last_updated'' (JStr now2) e2;
                    e4 = (case data_hash of
                            None \<Rightarrow> e3
                          | Some h \<Rightarrow> if h \<noteq> [] then AList.update ''data_hash'' (JStr h) e3 else e3)
                in (JObj (AList.update slug (JObj e4) d), save_ok))
           | Some _ \<Rightarrow> (cache_data, False))
      | _ \<Rightarrow> (cache_data, False))"

text \<open>
  \<^verbatim>\<open>mark_vc_failed\<close>.  The status and \<^verbatim>\<open>last_updated\<close> are assigned before
  \<^verbatim>\<open>self.cache_data[slug]["scrape_attempts"] += 1\<close>, which raises \<^verbatim>\<open>KeyError\<close> when the
  entry has no counter and \<^verbatim>\<open>TypeError\<close> when the counter is not a number: the
  handler then returns \<^verbatim>\<open>False\<close> and the two assignments stay in memory.
\<close>

definition mark_vc_failed :: "json \<Rightarrow> string \<Rightarrow> string \<Rightarrow> bool \<Rightarrow> json \<times> bool" where
  "mark_vc_failed cache_data slug now save_ok =
     (case cache_data of
        JObj d \<Rightarrow>
          (case map_of d slug of
             None \<Rightarrow> (cache_data, False)
           | Some (JObj e) \<Rightarrow>
               (let e1 = AList.update ''scraping_status'' (JStr ''failed'') e;
                    e2 = AList.update ''last_updated'' (JStr now) e1
                in (case map_of e2 ''scrape_attempts'' of
                      None \<Rightarrow> (JObj (AList.update slug (JObj e2) d), False)
                    | Some a \<Rightarrow>
                        (case py_num a of
                           None \<Rightarrow> (JObj (AList.update slug (JObj e2) d), False)
                         | Some n \<Rightarrow>
                             (JObj (AList.update slug
                                (JObj (AList.update ''scrape_attempts'' (JInt (n + 1)) e2)) d),
                              save_ok))))
           | Some _ \<Rightarrow> (cache_data, False))
      | _ \<Rightarrow> (cache_data, False))"

text \<open>
  Reading a cache: the entry stored under a slug, one field of that entry, and the
  slugs in insertion order.  A cache that is not a dict has no entries.
\<close>

definition cache_entry :: "json \<Rightarrow> string \<Rightarrow> json option" where
  "cache_entry cache_data slug = (case cache_data of JObj d \<Rightarrow> map_of d slug | _ \<Rightarrow> None)"

definition entry_field :: "json \<Rightarrow> string \<Rightarrow> string \<Rightarrow> json option" where
  "entry_field cache_data slug k =
     (case cache_entry cache_data slug of Some (JObj e) \<Rightarrow> map_of e k | _ \<Rightarrow> None)"

definition cache_keys :: "json \<Rightarrow> string list" where
  "cache_keys cache_data = (case cache_data of JObj d \<Rightarrow> map fst d | _ \<Rightarrow> [])"

subsection \<open>The cache pass of helpers/search\_page\_helper.py\<close>

text \<open>
  \<^verbatim>\<open>_filter_links_by_cache(vc_links)\<close> builds a manager (which loads the cache file),
  keeps the links that \<^verbatim>\<open>is_vc_completed\<close> does not report, and on any exception
  returns \<^verbatim>\<open>vc_links\<close>.
\<close>

fun filter_links_loop :: "json \<Rightarrow> string list \<Rightarrow> string list \<Rightarrow> error + string list" where
  "filter_links_loop cache_data filtered_links [] = Inr filtered_links"
| "filter_links_loop cache_data filtered_links (url # rest) =
     (let slug = vc_id_of_url url in
      case is_vc_completed cache_data slug of
        Inl e \<Rightarrow> Inl e
      | Inr True \<Rightarrow> filter_links_loop cache_data filtered_links rest
      | Inr False \<Rightarrow> filter_links_loop cache_data (filtered_links @ [url]) rest)"

definition filter_links_by_cache :: "cache_file \<Rightarrow> string list \<Rightarrow> string list" where
  "filter_links_by_cache f vc_links =
     (case filter_links_loop (load_cache f) [] vc_links of
        Inl e \<Rightarrow> vc_links
      | Inr filtered_links \<Rightarrow> filtered_links)"

section \<open>snc\_scraper\_service.py\<close>

text \<open>
  The part of the scraper object these functions read and write.  \<^verbatim>\<open>vc_status\<close> is
  an in-memory dict that only \<^verbatim>\<open>_set_vc_status\<close> fills, each value with the same six
  keys; \<^verbatim>\<open>completed_pages\<close> is a set of page numbers.
\<close>

record vc_info =
  status :: string
  url :: string
  attempts :: int
  first_seen :: string
  last_updated :: string
  discovered_on_page :: int

record scraper =
  results_dir :: directory
  target_page :: json
  vc_status :: "(string \<times> vc_info) list"
  completed_pages :: "int set"

text \<open>\<^verbatim>\<open>_get_vc_status\<close>: \<^verbatim>\<open>self.vc_status.get(vc_id, {}).get("status", "pending")\<close>.\<close>

definition scraper_get_vc_status :: "scraper \<Rightarrow> string \<Rightarrow> string" where
  "scraper_get_vc_status s vc_id =
     (case map_of (vc_status s) vc_id of None \<Rightarrow> ''pending'' | Some data \<Rightarrow> status data)"

text \<open>The entries of \<^verbatim>\<open>vc_status\<close> that were discovered on a page.\<close>

definition page_items :: "scraper \<Rightarrow> int \<Rightarrow> (string \<times> vc_info) list" where
  "page_items s page_num =
     filter (\<lambda>(vc_id, data). discovered_on_page data = page_num) (vc_status s)"

text \<open>
  \<^verbatim>\<open>_update_page_completion(page_num)\<close>: nothing happens when no VC was discovered on
  the page; the page is added when every one of them has the status "completed", and
  discarded otherwise.
\<close>

definition update_page_completion :: "scraper \<Rightarrow> int \<Rightarrow> scraper" where
  "update_page_completion s page_num =
     (let page_vc_ids =
            map fst (filter (\<lambda>(vc_id, data). discovered_on_page data = page_num) (vc_status s))
      in if page_vc_ids = [] then s
         else
           (let completed_count =
                  length (filter (\<lambda>vc_id. scraper_get_vc_status s vc_id = ''completed'') page_vc_ids)
            in if completed_count = length page_vc_ids \<and> length page_vc_ids > 0
               then s\<lparr>completed_pages := insert page_num (completed_pages s)\<rparr>
               else if page_num \<in> completed_pages s
               then s\<lparr>completed_pages := completed_pages s - {page_num}\<rparr>
               else s))"

text \<open>
  \<^verbatim>\<open>load_page_with_enhanced_metadata(page_num)\<close> returns
  \<^verbatim>\<open>(vcs_list, status, metadata)\<close>, and \<^verbatim>\<open>([], None, None)\<close> when nothing is found or
  any exception is raised: a file that cannot be read, or \<^verbatim>\<open>data["metadata"]["status"]\<close>
  on a metadata value that is not a dict or has no status.
\<close>

definition no_page_data :: "json \<times> json \<times> json" where
  "no_page_data = (JList [], JNull, JNull)"

fun enhanced_page_loop :: "int \<Rightarrow> (string \<times> file_read) list \<Rightarrow> json \<times> json \<times> json" where
  "enhanced_page_loop page_num [] = no_page_data"
| "enhanced_page_loop page_num ((filename, f) # rest) =
     (if page_file_name page_num filename then
        (case f of
           JsonDecodeError \<Rightarrow> no_page_data
         | OtherError \<Rightarrow> no_page_data
         | Parsed data \<Rightarrow>
             (case data of
                JObj d \<Rightarrow>
                  (case map_of d ''vcs'' of
                     Some vcs \<Rightarrow>
                       (case map_of d ''metadata'' of
                          Some (JObj m) \<Rightarrow>
                            (case map_of m ''status'' of
                               Some st \<Rightarrow> (vcs, st, JObj m)
                             | None \<Rightarrow> no_page_data)
                        | Some _ \<Rightarrow> no_page_data
                        | None \<Rightarrow> (vcs, JStr ''unknown'', JObj []))
                   | None \<Rightarrow> (data, legacy_status filename, JObj []))
              | _ \<Rightarrow> (data, legacy_status filename, JObj [])))
      else enhanced_page_loop page_num rest)"

definition load_page_with_enhanced_metadata :: "scraper \<Rightarrow> int \<Rightarrow> json \<times> json \<times> json" where
  "load_page_with_enhanced_metadata s page_num =
     (case results_dir s of
        NoDirectory \<Rightarrow> no_page_data
      | ListingFails \<Rightarrow> no_page_data
      | Listing files \<Rightarrow> enhanced_page_loop page_num files)"

section \<open>helpers/state\_manager.py\<close>

text \<open>
  The membership test \<^verbatim>\<open>'metadata' in page_data\<close>: a key of a dict, an element of a
  list, a substring of a string, and \<^verbatim>\<open>TypeError\<close> on the rest.
\<close>

fun py_in :: "string \<Rightarrow> json \<Rightarrow> error + bool" where
  "py_in k (JObj d) = Inr (map_of d k \<noteq> None)"
| "py_in k (JList xs) = Inr (JStr k \<in> set xs)"
| "py_in k (JStr s) = Inr (str_contains s k)"
| "py_in k _ = Inl TypeError"

text \<open>
  The loop of \<^verbatim>\<open>load_previous_state\<close> over the directory, with its two variables:
  the list \<^verbatim>\<open>completed_pages\<close> (\<open>done_pages\<close> here, the scraper has a field of that
  name) and \<^verbatim>\<open>in_progress_page\<close> (\<^verbatim>\<open>None\<close> at first, then the page number of the
  in-progress file seen last).  Only \<^verbatim>\<open>json.JSONDecodeError\<close>
  is handled inside the loop; any other exception leaves it: \<open>Inl\<close>.  After a true
  membership test, \<^verbatim>\<open>page_data['metadata']\<close> raises on a list or a string, and
  \<^verbatim>\<open>metadata.get\<close> raises when the metadata is not a dict.
\<close>

fun state_scan_loop ::
  "json list \<times> json \<Rightarrow> (string \<times> file_read) list \<Rightarrow> error + (json list \<times> json)" where
  "state_scan_loop acc [] = Inr acc"
| "state_scan_loop (done_pages, in_progress_page) ((filename, f) # rest) =
     (if startswith filename ''page_'' \<and> endswith filename ''.json'' then
        (case f of
           JsonDecodeError \<Rightarrow> state_scan_loop (done_pages, in_progress_page) rest
         | OtherError \<Rightarrow> Inl OSError
         | Parsed page_data \<Rightarrow>
             (case py_in ''metadata'' page_data of
                Inl e \<Rightarrow> Inl e
              | Inr False \<Rightarrow> state_scan_loop (done_pages, in_progress_page) rest
              | Inr True \<Rightarrow>
                  (case page_data of
                     JObj d \<Rightarrow>
                       (case dict_get d ''metadata'' of
                          JObj metadata \<Rightarrow>
                            (let page_num = dict_get metadata ''page_number'';
                                 st = dict_get metadata ''status''
                             in if st = JStr ''in_progress''
                                then state_scan_loop (done_pages, page_num) rest
                                else if st = JStr ''completed''
                                then state_scan_loop (done_pages @ [page_num], in_progress_page) rest
                                else state_scan_loop (done_pages, in_progress_page) rest)
                        | _ \<Rightarrow> Inl AttributeError)
                   | _ \<Rightarrow> Inl TypeError)))
      else state_scan_loop (done_pages, in_progress_page) rest)"

text \<open>
  \<^verbatim>\<open>max(completed_pages) + 1\<close>.  Python orders numbers with numbers only, and adds
  \<^verbatim>\<open>1\<close> to a number only; so the expression has a value exactly when every page number
  in the list is a number (otherwise a comparison inside \<^verbatim>\<open>max\<close> or the addition
  raises \<^verbatim>\<open>TypeError\<close>).  \<^verbatim>\<open>max\<close> keeps the first element and replaces it by each
  later one that is greater.
\<close>

fun py_max :: "int \<Rightarrow> int list \<Rightarrow> int" where
  "py_max m [] = m"
| "py_max m (x # xs) = py_max (if x > m then x else m) xs"

definition max_plus_one :: "json list \<Rightarrow> error + json" where
  "max_plus_one pages =
     (case those (map py_num pages) of
        None \<Rightarrow> Inl TypeError
      | Some [] \<Rightarrow> Inl TypeError
      | Some (n # ns) \<Rightarrow> Inr (JInt (py_max n ns + 1)))"

definition scan_results_dir :: "directory \<Rightarrow> error + (json list \<times> json)" where
  "scan_results_dir dir =
     (case dir of
        NoDirectory \<Rightarrow> Inr ([], JNull)
      | ListingFails \<Rightarrow> Inl OSError
      | Listing files \<Rightarrow> state_scan_loop ([], JNull) files)"

text \<open>
  \<^verbatim>\<open>load_previous_state\<close> returns the target page and stores it in
  \<^verbatim>\<open>self.scraper.target_page\<close>; the outer handler makes both \<^verbatim>\<open>1\<close>.
\<close>

definition choose_target_page :: "directory \<Rightarrow> json" where
  "choose_target_page dir =
     (case scan_results_dir dir of
        Inl e \<Rightarrow> JInt 1
      | Inr (done_pages, in_progress_page) \<Rightarrow>
          (if in_progress_page \<noteq> JNull then in_progress_page
           else if done_pages \<noteq> [] then
             (case max_plus_one done_pages of Inl e \<Rightarrow> JInt 1 | Inr p \<Rightarrow> p)
           else JInt 1))"

definition load_previous_state :: "scraper \<Rightarrow> scraper \<times> json" where
  "load_previous_state s =
     (let p = choose_target_page (results_dir s) in (s\<lparr>target_page := p\<rparr>, p))"

text \<open>
  \<^verbatim>\<open>load_previous_state_experimental(enable_experimental=False)\<close>.  The detector is
  \<open>None\<close> when the module could not be imported; otherwise it stands for building an
  \<^verbatim>\<open>EnhancedResumeDetector\<close> on the scraper and calling
  \<^verbatim>\<open>detect_resume_point_experimental\<close>, which raises, returns \<^verbatim>\<open>None\<close> or returns a
  page number.
\<close>

definition enable_experimental_default :: bool where
  "enable_experimental_default = False"

definition load_previous_state_experimental ::
  "(scraper \<Rightarrow> error + int option) option \<Rightarrow> bool \<Rightarrow> scraper \<Rightarrow> scraper \<times> json" where
  "load_previous_state_experimental detector enable_experimental s =
     (case detector of
        None \<Rightarrow> load_previous_state s
      | Some detect \<Rightarrow>
          (if \<not> enable_experimental then load_previous_state s
           else (case detect s of
                   Inl e \<Rightarrow> load_previous_state s
                 | Inr None \<Rightarrow> load_previous_state s
                 | Inr (Some experimental_resume_point) \<Rightarrow>
                     (s\<lparr>target_page := JInt experimental_resume_point\<rparr>,
                      JInt experimental_resume_point))))"

text \<open>
  Reading a directory of well-formed snapshots: the page number and status in the
  metadata of a structured document, the page numbers of the \<^verbatim>\<open>page_*.json\<close> files
  of one status in listing order, and the directories in which every such file is a
  structured document with an integer page number and a string status.
\<close>

fun snapshot_meta :: "file_read \<Rightarrow> (int \<times> string) option" where
  "snapshot_meta (Parsed (JObj d)) =
     (case dict_get d ''metadata'' of
        JObj m \<Rightarrow>
          (case (dict_get m ''page_number'', dict_get m ''status'') of
             (JInt n, JStr st) \<Rightarrow> Some (n, st)
           | _ \<Rightarrow> None)
      | _ \<Rightarrow> None)"
| "snapshot_meta _ = None"

definition pages_with_status :: "string \<Rightarrow> (string \<times> file_read) list \<Rightarrow> int list" where
  "pages_with_status st files =
     List.map_filter
       (\<lambda>(filename, f).
          if startswith filename ''page_'' \<and> endswith filename ''.json'' then
            (case snapshot_meta f of
               Some (n, st') \<Rightarrow> if st' = st then Some n else None
             | None \<Rightarrow> None)
          else None)
       files"

definition snapshots_ok :: "(string \<times> file_read) list \<Rightarrow> bool" where
  "snapshots_ok files =
     list_all (\<lambda>(filename, f).
        startswith filename ''page_'' \<and> endswith filename ''.json'' \<longrightarrow> snapshot_meta f \<noteq> None) files"

section \<open>Properties of the cache manager\<close>

lemma map_fst_update_present:
  "map_of d k = Some v \<Longrightarrow> map fst (AList.update k w d) = map fst d"
  by (induction d) (auto split: if_splits)

lemma cache_entry_update:
  "cache_entry (JObj (AList.update slug v d)) s' = (if s' = slug then Some v else map_of d s')"
  by (simp add: cache_entry_def update_conv')

lemma entry_field_update:
  "entry_field (JObj (AList.update slug (JObj e') d)) slug k = map_of e' k"
  by (simp add: entry_field_def cache_entry_def update_conv')

lemma entry_field_entry:
  "map_of d slug = Some (JObj e) \<Longrightarrow> entry_field (JObj d) slug k = map_of e k"
  by (simp add: entry_field_def cache_entry_def)

lemma entry_obj_cases:
  obtains (entry) d e where "c = JObj d" and "map_of d slug = Some (JObj e)"
  | (other) "\<And>e. cache_entry c slug \<noteq> Some (JObj e)"
  by (cases c) (auto simp: cache_entry_def)

lemma mark_vc_completed_other:
  "(\<And>e. cache_entry c slug \<noteq> Some (JObj e)) \<Longrightarrow>
   mark_vc_completed c slug h now1 now2 save_ok = (c, False)"
  by (cases c) (simp_all add: mark_vc_completed_def cache_entry_def split: option.splits json.splits)

lemma mark_vc_failed_other:
  "(\<And>e. cache_entry c slug \<noteq> Some (JObj e)) \<Longrightarrow>
   mark_vc_failed c slug now save_ok = (c, False)"
  by (cases c) (simp_all add: mark_vc_failed_def cache_entry_def split: option.splits json.splits)

text \<open>
  Claim C1, as the code has it.  \<^verbatim>\<open>add_vc\<close> has no test for presence: called with a
  slug that is already a key of the cache it replaces the entry by a fresh pending one
  (new timestamps, no attempts, no \<^verbatim>\<open>last_scraped\<close>, no \<^verbatim>\<open>data_hash\<close>) and returns
  what saving returns.  The keys of the cache, their order and every other entry stay
  as they were.
\<close>

theorem add_vc_present_overwrites:
  "map_of d slug = Some old \<Longrightarrow>
     snd (add_vc (JObj d) slug name u page now1 now2 save_ok) = save_ok
     \<and> cache_keys (fst (add_vc (JObj d) slug name u page now1 now2 save_ok)) = map fst d
     \<and> cache_entry (fst (add_vc (JObj d) slug name u page now1 now2 save_ok)) slug
         = Some (new_entry slug name u page now1 now2)
     \<and> entry_field (fst (add_vc (JObj d) slug name u page now1 now2 save_ok)) slug ''scraping_status''
         = Some (JStr ''pending'')
     \<and> entry_field (fst (add_vc (JObj d) slug name u page now1 now2 save_ok)) slug ''scrape_attempts''
         = Some (JInt 0)
     \<and> entry_field (fst (add_vc (JObj d) slug name u page now1 now2 save_ok)) slug ''first_discovered''
         = Some (JStr now1)
     \<and> entry_field (fst (add_vc (JObj d) slug name u page now1 now2 save_ok)) slug ''last_updated''
         = Some (JStr now2)
     \<and> entry_field (fst (add_vc (JObj d) slug name u page now1 now2 save_ok)) slug ''last_scraped''
         = Some JNull
     \<and> entry_field (fst (add_vc (JObj d) slug name u page now1 now2 save_ok)) slug ''data_hash''
         = Some JNull
     \<and> (s' \<noteq> slug \<longrightarrow>
          cache_entry (fst (add_vc (JObj d) slug name u page now1 now2 save_ok)) s' = map_of d s')"
  by (auto simp: add_vc_def cache_keys_def cache_entry_def entry_field_def map_fst_update_present
      update_conv' new_entry_def)

theorem add_vc_present_overwrites_witness:
  "map_of [(''acme'', JObj [(''scraping_status'', JStr ''failed''), (''scrape_attempts'', JInt 2)]),
           (''birch'', JObj [(''scraping_status'', JStr ''completed'')])] ''acme''
     = Some (JObj [(''scraping_status'', JStr ''failed''), (''scrape_attempts'', JInt 2)])
   \<and> snd (add_vc (JObj [(''acme'', JObj [(''scraping_status'', JStr ''failed''), (''scrape_attempts'', JInt 2)]),
                        (''birch'', JObj [(''scraping_status'', JStr ''completed'')])])
            ''acme'' ''Acme'' ''https://h/investor_page/acme'' (Some 1) ''t3'' ''t4'' True) = True
   \<and> entry_field (fst (add_vc (JObj [(''acme'', JObj [(''scraping_status'', JStr ''failed''), (''scrape_attempts'', JInt 2)]),
                        (''birch'', JObj [(''scraping_status'', JStr ''completed'')])])
            ''acme'' ''Acme'' ''https://h/investor_page/acme'' (Some 1) ''t3'' ''t4'' True))
        ''acme'' ''scrape_attempts'' = Some (JInt 0)
   \<and> cache_entry (fst (add_vc (JObj [(''acme'', JObj [(''scraping_status'', JStr ''failed''), (''scrape_attempts'', JInt 2)]),
                        (''birch'', JObj [(''scraping_status'', JStr ''completed'')])])
            ''acme'' ''Acme'' ''https://h/investor_page/acme'' (Some 1) ''t3'' ''t4'' True))
        ''birch'' = Some (JObj [(''scraping_status'', JStr ''completed'')])"
proof -
  have h: "map_of [(''acme'', JObj [(''scraping_status'', JStr ''failed''), (''scrape_attempts'', JInt 2)]),
           (''birch'', JObj [(''scraping_status'', JStr ''completed'')])] ''acme''
     = Some (JObj [(''scraping_status'', JStr ''failed''), (''scrape_attempts'', JInt 2)])"
    by simp
  show ?thesis
    using h add_vc_present_overwrites [OF h, of "''Acme''" "''https://h/investor_page/acme''"
        "Some 1" "''t3''" "''t4''" True "''birch''"]
    by simp
qed

text \<open>
  Claim C1 as stated fails: the second \<^verbatim>\<open>add_vc\<close> of a slug returns \<^verbatim>\<open>True\<close> (the
  save succeeded) and the entry, which had failed twice, is pending again with no
  attempts and new timestamps.
\<close>

theorem add_vc_twice_counterexample:
  "add_vc
     (JObj [(''acme'',
        JObj [(''name'', JStr ''Acme''), (''url'', JStr ''https://h/investor_page/acme''),
              (''slug'', JStr ''acme''), (''first_seen_page'', JInt 1),
              (''scraping_status'', JStr ''failed''), (''first_discovered'', JStr ''t1''),
              (''last_updated'', JStr ''t2''), (''last_scraped'', JNull),
              (''scrape_attempts'', JInt 2), (''data_hash'', JNull)])])
     ''acme'' ''Acme'' ''https://h/investor_page/acme'' (Some 1) ''t3'' ''t4'' True
   = (JObj [(''acme'',
        JObj [(''name'', JStr ''Acme''), (''url'', JStr ''https://h/investor_page/acme''),
              (''slug'', JStr ''acme''), (''first_seen_page'', JInt 1),
              (''scraping_status'', JStr ''pending''), (''first_discovered'', JStr ''t3''),
              (''last_updated'', JStr ''t4''), (''last_scraped'', JNull),
              (''scrape_attempts'', JInt 0), (''data_hash'', JNull)])],
      True)"
  by (simp add: add_vc_def new_entry_def)

text \<open>
  Claim C8.  For an identifier with no entry in the cache, \<^verbatim>\<open>mark_vc_completed\<close>
  and \<^verbatim>\<open>mark_vc_failed\<close> return \<^verbatim>\<open>False\<close> and leave the cache as it was.  For an
  identifier that has an entry, after \<^verbatim>\<open>mark_vc_failed\<close> the status is "failed" and
  \<^verbatim>\<open>last_updated\<close> is the time of the call; when the entry carries the attempt
  counter \<open>n\<close>, as every entry that \<^verbatim>\<open>add_vc\<close> wrote does, the counter is \<open>n + 1\<close>
  afterwards and the call returns what saving returns.
\<close>

theorem mark_unknown_noop_failed_counts:
  "(cache_entry c slug = None \<longrightarrow>
      mark_vc_completed c slug h now1 now2 save_ok = (c, False)
      \<and> mark_vc_failed c slug now save_ok = (c, False))
   \<and> (cache_entry c slug = Some (JObj e) \<longrightarrow>
        entry_field (fst (mark_vc_failed c slug now save_ok)) slug ''scraping_status''
            = Some (JStr ''failed'')
        \<and> entry_field (fst (mark_vc_failed c slug now save_ok)) slug ''last_updated''
            = Some (JStr now))
   \<and> (entry_field c slug ''scrape_attempts'' = Some (JInt n) \<longrightarrow>
        snd (mark_vc_failed c slug now save_ok) = save_ok
        \<and> entry_field (fst (mark_vc_failed c slug now save_ok)) slug ''scraping_status''
            = Some (JStr ''failed'')
        \<and> entry_field (fst (mark_vc_failed c slug now save_ok)) slug ''last_updated''
            = Some (JStr now)
        \<and> entry_field (fst (mark_vc_failed c slug now save_ok)) slug ''scrape_attempts''
            = Some (JInt (n + 1)))"
proof (cases c slug rule: entry_obj_cases)
  case (entry d e')
  then show ?thesis
    by (simp add: mark_vc_failed_def cache_entry_def entry_field_def update_conv' Let_def
        split: option.splits)
next
  case other
  then show ?thesis
    by (auto simp: mark_vc_completed_other mark_vc_failed_other entry_field_def
        split: option.splits json.splits)
qed

theorem mark_unknown_noop_failed_counts_witness:
  "cache_entry (JObj [(''acme'', JObj [(''scraping_status'', JStr ''pending''),
                                        (''last_updated'', JStr ''t1''),
                                        (''scrape_attempts'', JInt 2)])]) ''birch'' = None
   \<and> mark_vc_completed (JObj [(''acme'', JObj [(''scraping_status'', JStr ''pending''),
                                        (''last_updated'', JStr ''t1''),
                                        (''scrape_attempts'', JInt 2)])]) ''birch'' (Some ''h1'') ''t2'' ''t3'' True
       = (JObj [(''acme'', JObj [(''scraping_status'', JStr ''pending''),
                                        (''last_updated'', JStr ''t1''),
                                        (''scrape_attempts'', JInt 2)])], False)
   \<and> entry_field (JObj [(''acme'', JObj [(''scraping_status'', JStr ''pending''),
                                        (''last_updated'', JStr ''t1''),
                                        (''scrape_attempts'', JInt 2)])]) ''acme'' ''scrape_attempts''
       = Some (JInt 2)
   \<and> entry_field (fst (mark_vc_failed (JObj [(''acme'', JObj [(''scraping_status'', JStr ''pending''),
                                        (''last_updated'', JStr ''t1''),
                                        (''scrape_attempts'', JInt 2)])]) ''acme'' ''t2'' True))
        ''acme'' ''scrape_attempts'' = Some (JInt 3)
   \<and> cache_entry (JObj [(''acme'', JObj [(''scraping_status'', JStr ''pending''),
                                        (''last_updated'', JStr ''t1''),
                                        (''scrape_attempts'', JInt 2)])]) ''acme''
       = Some (JObj [(''scraping_status'', JStr ''pending''), (''last_updated'', JStr ''t1''),
                     (''scrape_attempts'', JInt 2)])
   \<and> entry_field (fst (mark_vc_failed (JObj [(''acme'', JObj [(''scraping_status'', JStr ''pending''),
                                        (''last_updated'', JStr ''t1''),
                                        (''scrape_attempts'', JInt 2)])]) ''acme'' ''t2'' True))
        ''acme'' ''scraping_status'' = Some (JStr ''failed'')"
proof -
  let ?c = "JObj [(''acme'', JObj [(''scraping_status'', JStr ''pending''),
                                        (''last_updated'', JStr ''t1''),
                                        (''scrape_attempts'', JInt 2)])]"
  have h1: "cache_entry ?c ''birch'' = None"
    by (simp add: cache_entry_def)
  have h2: "entry_field ?c ''acme'' ''scrape_attempts'' = Some (JInt 2)"
    by (simp add: entry_field_def cache_entry_def)
  have h3: "cache_entry ?c ''acme''
       = Some (JObj [(''scraping_status'', JStr ''pending''), (''last_updated'', JStr ''t1''),
                     (''scrape_attempts'', JInt 2)])"
    by (simp add: cache_entry_def)
  show ?thesis
    using h1 h2 h3
      mark_unknown_noop_failed_counts [where c = ?c and slug = "''birch''" and h = "Some ''h1''"
        and ?now1.0 = "''t2''" and ?now2.0 = "''t3''" and save_ok = True and now = "''t2''"
        and n = 2 and e = "[]"]
      mark_unknown_noop_failed_counts [where c = ?c and slug = "''acme''" and h = "Some ''h1''"
        and ?now1.0 = "''t2''" and ?now2.0 = "''t3''" and save_ok = True and now = "''t2''"
        and n = 2
        and e = "[(''scraping_status'', JStr ''pending''), (''last_updated'', JStr ''t1''),
                  (''scrape_attempts'', JInt 2)]"]
    by simp
qed

text \<open>
  Claim C10.  Whatever the cache, \<^verbatim>\<open>mark_vc_completed\<close> leaves every entry under
  another slug as it was, and in the entry of its slug every field other than
  \<^verbatim>\<open>scraping_status\<close>, \<^verbatim>\<open>last_scraped\<close>, \<^verbatim>\<open>last_updated\<close> and \<^verbatim>\<open>data_hash\<close>
  (so \<^verbatim>\<open>name\<close>, \<^verbatim>\<open>url\<close>, \<^verbatim>\<open>slug\<close>, \<^verbatim>\<open>first_seen_page\<close> and
  \<^verbatim>\<open>scrape_attempts\<close>); without a hash \<^verbatim>\<open>data_hash\<close> is kept too.
  \<^verbatim>\<open>mark_vc_failed\<close> leaves every other entry, and every field other than
  \<^verbatim>\<open>scraping_status\<close>, \<^verbatim>\<open>last_updated\<close> and \<^verbatim>\<open>scrape_attempts\<close>.  Neither adds,
  removes or reorders a slug.
\<close>

theorem mark_frame:
  "(s' \<noteq> slug \<longrightarrow>
      cache_entry (fst (mark_vc_completed c slug h now1 now2 save_ok)) s' = cache_entry c s'
      \<and> cache_entry (fst (mark_vc_failed c slug now save_ok)) s' = cache_entry c s')
   \<and> (k \<notin> {''scraping_status'', ''last_scraped'', ''last_updated'', ''data_hash''} \<longrightarrow>
        entry_field (fst (mark_vc_completed c slug h now1 now2 save_ok)) slug k = entry_field c slug k)
   \<and> (h = None \<longrightarrow>
        entry_field (fst (mark_vc_completed c slug h now1 now2 save_ok)) slug ''data_hash''
          = entry_field c slug ''data_hash'')
   \<and> (k \<notin> {''scraping_status'', ''last_updated'', ''scrape_attempts''} \<longrightarrow>
        entry_field (fst (mark_vc_failed c slug now save_ok)) slug k = entry_field c slug k)
   \<and> cache_keys (fst (mark_vc_completed c slug h now1 now2 save_ok)) = cache_keys c
   \<and> cache_keys (fst (mark_vc_failed c slug now save_ok)) = cache_keys c"
proof (cases c slug rule: entry_obj_cases)
  case (entry d e)
  have keys: "\<And>v. cache_keys (JObj (AList.update slug v d)) = cache_keys (JObj d)"
    using entry(2) by (simp add: cache_keys_def map_fst_update_present)
  have other: "\<And>v. s' \<noteq> slug \<Longrightarrow>
      cache_entry (JObj (AList.update slug v d)) s' = cache_entry (JObj d) s'"
    by (simp add: cache_entry_update) (simp add: cache_entry_def)
  define e3 where "e3 = AList.update ''last_updated'' (JStr now2)
              (AList.update ''last_scraped'' (JStr now1)
                (AList.update ''scraping_status'' (JStr ''completed'') e))"
  define e1 where "e1 = (case h of None \<Rightarrow> e3
             | Some x \<Rightarrow> if x \<noteq> [] then AList.update ''data_hash'' (JStr x) e3 else e3)"
  define f2 where "f2 = AList.update ''last_updated'' (JStr now)
              (AList.update ''scraping_status'' (JStr ''failed'') e)"
  define e2 where "e2 = (case map_of f2 ''scrape_attempts'' of None \<Rightarrow> f2
             | Some a \<Rightarrow> (case py_num a of None \<Rightarrow> f2
                 | Some n \<Rightarrow> AList.update ''scrape_attempts'' (JInt (n + 1)) f2))"
  have r1: "fst (mark_vc_completed (JObj d) slug h now1 now2 save_ok)
      = JObj (AList.update slug (JObj e1) d)"
    using entry(2) by (cases h) (simp_all add: mark_vc_completed_def Let_def e1_def e3_def)
  have e1k: "k \<notin> {''scraping_status'', ''last_scraped'', ''last_updated'', ''data_hash''}
      \<Longrightarrow> map_of e1 k = map_of e k"
    by (simp add: e1_def e3_def update_conv' split: option.splits)
  have e1h: "h = None \<Longrightarrow> map_of e1 ''data_hash'' = map_of e ''data_hash''"
    by (cases h) (simp_all add: e1_def e3_def update_conv')
  have r2: "fst (mark_vc_failed (JObj d) slug now save_ok) = JObj (AList.update slug (JObj e2) d)"
    using entry(2) by (simp add: mark_vc_failed_def Let_def e2_def f2_def split: option.splits)
  have e2k: "k \<notin> {''scraping_status'', ''last_updated'', ''scrape_attempts''}
      \<Longrightarrow> map_of e2 k = map_of e k"
    by (simp add: e2_def f2_def update_conv' split: option.splits)
  show ?thesis
    unfolding entry(1) r1 r2
    using e1k e1h e2k other keys
    by (auto simp: entry_field_update entry_field_entry [OF entry(2)])
next
  case other
  then show ?thesis
    by (simp add: mark_vc_completed_other mark_vc_failed_other)
qed

theorem mark_frame_witness:
  "''birch'' \<noteq> ''acme''
   \<and> ''name'' \<notin> {''scraping_status'', ''last_scraped'', ''last_updated'', ''data_hash''}
   \<and> ''name'' \<notin> {''scraping_status'', ''last_updated'', ''scrape_attempts''}
   \<and> cache_entry (fst (mark_vc_completed
        (JObj [(''acme'', JObj [(''name'', JStr ''Acme''), (''scraping_status'', JStr ''pending''),
                                (''scrape_attempts'', JInt 0), (''data_hash'', JStr ''h0'')]),
               (''birch'', JObj [(''name'', JStr ''Birch''), (''scraping_status'', JStr ''pending'')])])
        ''acme'' None ''t1'' ''t2'' True)) ''birch''
       = Some (JObj [(''name'', JStr ''Birch''), (''scraping_status'', JStr ''pending'')])
   \<and> entry_field (fst (mark_vc_completed
        (JObj [(''acme'', JObj [(''name'', JStr ''Acme''), (''scraping_status'', JStr ''pending''),
                                (''scrape_attempts'', JInt 0), (''data_hash'', JStr ''h0'')]),
               (''birch'', JObj [(''name'', JStr ''Birch''), (''scraping_status'', JStr ''pending'')])])
        ''acme'' None ''t1'' ''t2'' True)) ''acme'' ''name'' = Some (JStr ''Acme'')
   \<and> entry_field (fst (mark_vc_completed
        (JObj [(''acme'', JObj [(''name'', JStr ''Acme''), (''scraping_status'', JStr ''pending''),
                                (''scrape_attempts'', JInt 0), (''data_hash'', JStr ''h0'')]),
               (''birch'', JObj [(''name'', JStr ''Birch''), (''scraping_status'', JStr ''pending'')])])
        ''acme'' None ''t1'' ''t2'' True)) ''acme'' ''data_hash'' = Some (JStr ''h0'')
   \<and> entry_field (fst (mark_vc_failed
        (JObj [(''acme'', JObj [(''name'', JStr ''Acme''), (''scraping_status'', JStr ''pending''),
                                (''scrape_attempts'', JInt 0), (''data_hash'', JStr ''h0'')]),
               (''birch'', JObj [(''name'', JStr ''Birch''), (''scraping_status'', JStr ''pending'')])])
        ''acme'' ''t3'' True)) ''acme'' ''name'' = Some (JStr ''Acme'')"
proof -
  let ?c = "JObj [(''acme'', JObj [(''name'', JStr ''Acme''), (''scraping_status'', JStr ''pending''),
                                (''scrape_attempts'', JInt 0), (''data_hash'', JStr ''h0'')]),
               (''birch'', JObj [(''name'', JStr ''Birch''), (''scraping_status'', JStr ''pending'')])]"
  have c: "cache_entry ?c ''birch''
             = Some (JObj [(''name'', JStr ''Birch''), (''scraping_status'', JStr ''pending'')])"
    "entry_field ?c ''acme'' ''name'' = Some (JStr ''Acme'')"
    "entry_field ?c ''acme'' ''data_hash'' = Some (JStr ''h0'')"
    by (simp_all add: cache_entry_def entry_field_def)
  show ?thesis
    using c mark_frame [of "''birch''" "''acme''" ?c None "''t1''" "''t2''" True "''t3''" "''name''"]
    by simp
qed

section \<open>Properties of the cache pass\<close>

lemma filter_links_loop_empty:
  "filter_links_loop (JObj []) acc links = Inr (acc @ links)"
  by (induction links arbitrary: acc)
     (auto simp: is_vc_completed_def get_vc_status_def dict_get_default_def dict_get_def)

text \<open>
  Claim C7.  When the cache file is missing or cannot be read, the cache is the empty
  dict, \<^verbatim>\<open>is_vc_completed\<close> returns \<^verbatim>\<open>False\<close> for every identifier without raising,
  and \<^verbatim>\<open>_filter_links_by_cache\<close> returns the list it was given.  Whatever the cache
  file holds, when the pass over the links raises, \<^verbatim>\<open>_filter_links_by_cache\<close> returns
  the list it was given.
\<close>

theorem cache_read_failure_keeps_links:
  "(f = NoCacheFile \<or> f = CacheReadError \<longrightarrow>
      load_cache f = JObj []
      \<and> is_vc_completed (load_cache f) slug = Inr False
      \<and> filter_links_by_cache f vc_links = vc_links)
   \<and> (filter_links_loop (load_cache g) [] vc_links = Inl e \<longrightarrow>
        filter_links_by_cache g vc_links = vc_links)"
  by (auto simp: load_cache_def is_vc_completed_def get_vc_status_def dict_get_default_def
      dict_get_def filter_links_by_cache_def filter_links_loop_empty)

theorem cache_read_failure_keeps_links_witness:
  "is_vc_completed (load_cache CacheReadError) ''acme'' = Inr False
   \<and> filter_links_by_cache CacheReadError [''https://h/investor_page/acme'', ''https://h/investor_page/birch'']
       = [''https://h/investor_page/acme'', ''https://h/investor_page/birch'']
   \<and> filter_links_loop
        (load_cache (CacheContents (JObj [(''acme'', JObj [(''scraping_status'', JStr ''completed'')]),
                                          (''birch'', JInt 3)])))
        [] [''https://h/investor_page/acme'', ''https://h/investor_page/birch''] = Inl AttributeError
   \<and> filter_links_by_cache
        (CacheContents (JObj [(''acme'', JObj [(''scraping_status'', JStr ''completed'')]),
                              (''birch'', JInt 3)]))
        [''https://h/investor_page/acme'', ''https://h/investor_page/birch'']
       = [''https://h/investor_page/acme'', ''https://h/investor_page/birch'']"
proof -
  let ?g = "CacheContents (JObj [(''acme'', JObj [(''scraping_status'', JStr ''completed'')]),
                                 (''birch'', JInt 3)])"
  let ?links = "[''https://h/investor_page/acme'', ''https://h/investor_page/birch'']"
  have h: "filter_links_loop (load_cache ?g) [] ?links = Inl AttributeError"
    by (simp add: load_cache_def vc_id_of_url_def is_vc_completed_def get_vc_status_def
        dict_get_default_def dict_get_def)
  show ?thesis
    using h cache_read_failure_keeps_links [of CacheReadError "''acme''" ?links ?g AttributeError]
    by (simp add: load_cache_def vc_id_of_url_def is_vc_completed_def get_vc_status_def
        dict_get_default_def dict_get_def)
qed

section \<open>Properties of the search page helper\<close>

text \<open>
  Claim C5.  \<^verbatim>\<open>determine_vc_status\<close> answers "scraped" exactly for a dict in which
  one of \<^verbatim>\<open>founded\<close>, \<^verbatim>\<open>overview\<close>, \<^verbatim>\<open>exits\<close>, \<^verbatim>\<open>investment_stages\<close> is
  non-empty and \<^verbatim>\<open>investments\<close> is non-empty, and "not\_scraped" for everything else,
  a value that is not a dict included.  Non-empty is Python's truth value: the field is
  present and is not \<^verbatim>\<open>None\<close>, \<^verbatim>\<open>False\<close>, \<^verbatim>\<open>0\<close>, an empty string, list or dict.
\<close>

theorem determine_vc_status_scraped_iff:
  "determine_vc_status vc =
     (if \<exists>d. vc = JObj d
            \<and> (\<exists>f \<in> {''founded'', ''overview'', ''exits'', ''investment_stages''}.
                  truthy (dict_get d f))
            \<and> truthy (dict_get d ''investments'')
      then ''scraped'' else ''not_scraped'')"
  by (cases vc) (auto simp: determine_vc_status_def key_overview_fields_def Let_def)

theorem determine_vc_status_scraped_iff_witness:
  "determine_vc_status (JObj [(''founded'', JStr ''2001''), (''investments'', JList [JStr ''x''])])
     = ''scraped''
   \<and> determine_vc_status (JObj [(''founded'', JStr ''2001''), (''investments'', JList [])])
     = ''not_scraped''
   \<and> determine_vc_status (JObj [(''investments'', JList [JStr ''x''])]) = ''not_scraped''
   \<and> determine_vc_status (JList [JStr ''founded'', JStr ''investments'']) = ''not_scraped''"
  using
    determine_vc_status_scraped_iff
      [of "JObj [(''founded'', JStr ''2001''), (''investments'', JList [JStr ''x''])]"]
    determine_vc_status_scraped_iff
      [of "JObj [(''founded'', JStr ''2001''), (''investments'', JList [])]"]
    determine_vc_status_scraped_iff [of "JObj [(''investments'', JList [JStr ''x''])]"]
    determine_vc_status_scraped_iff [of "JList [JStr ''founded'', JStr ''investments'']"]
  by (simp add: dict_get_def dict_get_default_def)

section \<open>Properties of the state manager\<close>

text \<open>
  Claim C9.  The flag \<^verbatim>\<open>enable_experimental\<close> defaults to \<^verbatim>\<open>False\<close>, and with the
  default the result is the baseline's.  With any flag, when the detector module is
  missing, or building and running the detector raises, or it returns \<^verbatim>\<open>None\<close>, the
  result (the returned page and the stored \<^verbatim>\<open>target_page\<close>) is the baseline's.  The
  baseline catches every exception, so the result is always a value.
\<close>

theorem experimental_falls_back:
  "load_previous_state_experimental detector enable_experimental_default s = load_previous_state s
   \<and> \<not> enable_experimental_default
   \<and> load_previous_state_experimental None enable s = load_previous_state s
   \<and> (detect s = Inl e \<or> detect s = Inr None \<longrightarrow>
        load_previous_state_experimental (Some detect) enable s = load_previous_state s)"
  by (auto simp: load_previous_state_experimental_def enable_experimental_default_def
      split: option.splits)

theorem experimental_falls_back_witness:
  "(\<lambda>s. Inl OSError :: error + int option)
      \<lparr>results_dir = NoDirectory, target_page = JNull, vc_status = [], completed_pages = {}\<rparr>
     = Inl OSError
   \<and> load_previous_state_experimental (Some (\<lambda>s. Inl OSError)) True
        \<lparr>results_dir = NoDirectory, target_page = JNull, vc_status = [], completed_pages = {}\<rparr>
     = (\<lparr>results_dir = NoDirectory, target_page = JInt 1, vc_status = [], completed_pages = {}\<rparr>,
        JInt 1)
   \<and> load_previous_state_experimental (Some (\<lambda>s. Inr None)) True
        \<lparr>results_dir = NoDirectory, target_page = JNull, vc_status = [], completed_pages = {}\<rparr>
     = (\<lparr>results_dir = NoDirectory, target_page = JInt 1, vc_status = [], completed_pages = {}\<rparr>,
        JInt 1)"
  using
    experimental_falls_back [of None
      "\<lparr>results_dir = NoDirectory, target_page = JNull, vc_status = [], completed_pages = {}\<rparr>"
      True "\<lambda>s. Inl OSError" OSError]
    experimental_falls_back [of None
      "\<lparr>results_dir = NoDirectory, target_page = JNull, vc_status = [], completed_pages = {}\<rparr>"
      True "\<lambda>s. Inr None" OSError]
  by (simp add: load_previous_state_def choose_target_page_def scan_results_dir_def Let_def)

section \<open>Properties of the work selector\<close>

lemma links_loop_eq:
  "links_loop S acc links = acc @ filter (\<lambda>u. JStr (vc_id_of_url u) \<notin> S) links"
  by (induction links arbitrary: acc) (simp_all add: Let_def)

lemma scraped_id_set_Cons:
  "scraped_id_set (vc # rest) =
     (if determine_vc_status vc = ''scraped'' \<and> truthy (vc_id_of_item vc)
      then insert (vc_id_of_item vc) (scraped_id_set rest) else scraped_id_set rest)"
  by (auto simp: scraped_id_set_def scraped_items_def)

lemma scraped_ids_loop_eq:
  "\<forall>vc \<in> set (scraped_items vcs). hashable (vc_id_of_item vc) \<Longrightarrow>
   scraped_ids_loop S vcs = Inr (S \<union> scraped_id_set vcs)"
proof (induction vcs arbitrary: S)
  case Nil
  show ?case by (simp add: scraped_id_set_def scraped_items_def)
next
  case (Cons vc rest)
  have rest: "\<forall>vc \<in> set (scraped_items rest). hashable (vc_id_of_item vc)"
    using Cons.prems by (simp add: scraped_items_def)
  note IH = Cons.IH [OF rest]
  show ?case
  proof (cases vc)
    case (JObj d)
    then show ?thesis
      using Cons.prems IH
      by (auto simp: scraped_id_set_Cons Let_def vc_id_of_item_def scraped_items_def
          split: if_splits)
  qed (simp_all add: IH scraped_id_set_Cons determine_vc_status_def)
qed

lemma filter_unscraped_vcs_list:
  assumes "vcs \<noteq> []" and "\<forall>vc \<in> set (scraped_items vcs). hashable (vc_id_of_item vc)"
  shows "filter_unscraped_vcs links (JList vcs)
           = Inr (filter (\<lambda>u. JStr (vc_id_of_url u) \<notin> scraped_id_set vcs) links)"
  using assms by (simp add: filter_unscraped_vcs_def scraped_ids_loop_eq links_loop_eq)

lemma image_restrict: "T \<subseteq> g ` A \<Longrightarrow> g ` {u \<in> A. g u \<in> T} = T"
  by (auto simp: subset_iff image_iff)

lemma count_removed:
  assumes dl: "distinct links"
    and inj: "inj_on vc_id_of_url (set links)"
    and di: "distinct (map vc_id_of_item (scraped_items vcs))"
    and tr: "\<forall>vc \<in> set (scraped_items vcs). truthy (vc_id_of_item vc)"
    and sub: "vc_id_of_item ` set (scraped_items vcs) \<subseteq> (\<lambda>u. JStr (vc_id_of_url u)) ` set links"
  shows "length (filter (\<lambda>u. JStr (vc_id_of_url u) \<in> scraped_id_set vcs) links)
           = length (scraped_items vcs)"
proof -
  let ?g = "\<lambda>u. JStr (vc_id_of_url u)"
  let ?S = "scraped_id_set vcs"
  have S: "?S = vc_id_of_item ` set (scraped_items vcs)"
    using tr by (auto simp: scraped_id_set_def)
  have injg: "inj_on ?g (set links)"
    using inj by (auto simp: inj_on_def)
  have "length (filter (\<lambda>u. ?g u \<in> ?S) links) = card {u \<in> set links. ?g u \<in> ?S}"
    using dl by (simp add: distinct_length_filter Int_def conj_commute)
  also have "\<dots> = card (?g ` {u \<in> set links. ?g u \<in> ?S})"
    using injg by (simp add: card_image inj_on_subset)
  also have "?g ` {u \<in> set links. ?g u \<in> ?S} = ?S"
    using sub unfolding S by (rule image_restrict)
  also have "card ?S = length (scraped_items vcs)"
    unfolding S using di by (metis distinct_card length_map set_map)
  finally show ?thesis .
qed

text \<open>
  Claim C6, as the code has it.  Without an existing item list (\<^verbatim>\<open>None\<close> or an empty
  list) every candidate is returned.  With a non-empty item list in which no scraped
  item has a list or a dict as \<^verbatim>\<open>vc_id\<close> (on those the call raises), the result is the
  pool without the links whose identifier is the non-empty \<^verbatim>\<open>vc_id\<close> of a scraped item,
  in the order of the pool; it has no duplicates when the pool has none.  It has
  \<open>N - M\<close> links when, moreover, the links of the pool have pairwise different
  identifiers and the \<open>M\<close> scraped items have pairwise different non-empty identifiers,
  each the identifier of a link of the pool.
\<close>

theorem filter_unscraped_vcs_keeps_unscraped:
  "(\<not> truthy existing_vcs \<longrightarrow> filter_unscraped_vcs links existing_vcs = Inr links)
   \<and> (vcs \<noteq> [] \<and> (\<forall>vc \<in> set (scraped_items vcs). hashable (vc_id_of_item vc)) \<longrightarrow>
        filter_unscraped_vcs links (JList vcs)
          = Inr (filter (\<lambda>u. JStr (vc_id_of_url u) \<notin> scraped_id_set vcs) links)
        \<and> (distinct links \<longrightarrow>
              distinct (filter (\<lambda>u. JStr (vc_id_of_url u) \<notin> scraped_id_set vcs) links))
        \<and> (distinct links \<and> inj_on vc_id_of_url (set links)
             \<and> distinct (map vc_id_of_item (scraped_items vcs))
             \<and> (\<forall>vc \<in> set (scraped_items vcs). truthy (vc_id_of_item vc))
             \<and> vc_id_of_item ` set (scraped_items vcs)
                  \<subseteq> (\<lambda>u. JStr (vc_id_of_url u)) ` set links \<longrightarrow>
              length (filter (\<lambda>u. JStr (vc_id_of_url u) \<notin> scraped_id_set vcs) links)
                = length links - length (scraped_items vcs)))"
proof -
  have split: "length (filter (\<lambda>u. JStr (vc_id_of_url u) \<notin> scraped_id_set vcs) links)
      = length links - length (filter (\<lambda>u. JStr (vc_id_of_url u) \<in> scraped_id_set vcs) links)"
    using sum_length_filter_compl [of "\<lambda>u. JStr (vc_id_of_url u) \<in> scraped_id_set vcs" links]
    by simp
  have none: "\<not> truthy existing_vcs \<longrightarrow> filter_unscraped_vcs links existing_vcs = Inr links"
    by (simp add: filter_unscraped_vcs_def)
  show ?thesis
    using split none
    by (auto simp: filter_unscraped_vcs_list count_removed)
qed

theorem filter_unscraped_vcs_keeps_unscraped_witness:
  "filter_unscraped_vcs
     [''https://h/investor_page/acme'', ''https://h/investor_page/birch'',
      ''https://h/investor_page/cedar'']
     (JList [JObj [(''vc_id'', JStr ''acme''), (''founded'', JStr ''2001''),
                   (''investments'', JList [JStr ''x''])],
             JObj [(''vc_id'', JStr ''birch''), (''founded'', JStr ''1999''),
                   (''investments'', JList [])]])
     = Inr [''https://h/investor_page/birch'', ''https://h/investor_page/cedar'']
   \<and> length (scraped_items
        [JObj [(''vc_id'', JStr ''acme''), (''founded'', JStr ''2001''),
                   (''investments'', JList [JStr ''x''])],
         JObj [(''vc_id'', JStr ''birch''), (''founded'', JStr ''1999''),
                   (''investments'', JList [])]]) = 1
   \<and> filter_unscraped_vcs [''https://h/investor_page/acme''] JNull
     = Inr [''https://h/investor_page/acme'']"
proof -
  let ?links = "[''https://h/investor_page/acme'', ''https://h/investor_page/birch'',
                 ''https://h/investor_page/cedar'']"
  let ?A = "JObj [(''vc_id'', JStr ''acme''), (''founded'', JStr ''2001''),
                   (''investments'', JList [JStr ''x''])]"
  let ?B = "JObj [(''vc_id'', JStr ''birch''), (''founded'', JStr ''1999''),
                   (''investments'', JList [])]"
  have si: "scraped_items [?A, ?B] = [?A]"
    by (simp add: scraped_items_def determine_vc_status_def key_overview_fields_def
        dict_get_def dict_get_default_def)
  have ids: "vc_id_of_item ?A = JStr ''acme''"
    by (simp add: vc_id_of_item_def dict_get_default_def)
  have urls: "vc_id_of_url ''https://h/investor_page/acme'' = ''acme''"
    "vc_id_of_url ''https://h/investor_page/birch'' = ''birch''"
    "vc_id_of_url ''https://h/investor_page/cedar'' = ''cedar''"
    by (simp_all add: vc_id_of_url_def)
  have ids_set: "scraped_id_set [?A, ?B] = {JStr ''acme''}"
    by (auto simp: scraped_id_set_def si ids)
  have h: "[?A, ?B] \<noteq> []" "\<forall>vc \<in> set (scraped_items [?A, ?B]). hashable (vc_id_of_item vc)"
    "distinct ?links" "inj_on vc_id_of_url (set ?links)"
    "distinct (map vc_id_of_item (scraped_items [?A, ?B]))"
    "\<forall>vc \<in> set (scraped_items [?A, ?B]). truthy (vc_id_of_item vc)"
    "vc_id_of_item ` set (scraped_items [?A, ?B]) \<subseteq> (\<lambda>u. JStr (vc_id_of_url u)) ` set ?links"
    by (simp_all add: si ids urls)
  show ?thesis
    using h
      filter_unscraped_vcs_keeps_unscraped [of JNull "[''https://h/investor_page/acme'']" "[?A, ?B]"]
      filter_unscraped_vcs_keeps_unscraped [of JNull ?links "[?A, ?B]"]
    by (simp add: si ids_set urls)
qed

text \<open>
  Claim C6 as stated fails: the pool has one link (\<open>N = 1\<close>), the snapshot has one
  scraped item (\<open>M = 1\<close>), of another identifier, and one link is returned, not
  \<open>N - M = 0\<close>.
\<close>

theorem filter_unscraped_vcs_counterexample:
  "filter_unscraped_vcs [''https://h/investor_page/acme'']
     (JList [JObj [(''vc_id'', JStr ''birch''), (''founded'', JStr ''2001''),
                   (''investments'', JList [JStr ''x''])]])
     = Inr [''https://h/investor_page/acme'']
   \<and> length [''https://h/investor_page/acme'']
       - length (scraped_items [JObj [(''vc_id'', JStr ''birch''), (''founded'', JStr ''2001''),
                   (''investments'', JList [JStr ''x''])]]) = 0"
  by (simp add: filter_unscraped_vcs_def determine_vc_status_def key_overview_fields_def
      dict_get_def dict_get_default_def vc_id_of_url_def scraped_items_def)

section \<open>Properties of the snapshot loaders\<close>

lemma enhanced_page_loop_skip:
  "(\<forall>(fn, f) \<in> set pre. \<not> page_file_name page_num fn) \<Longrightarrow>
   enhanced_page_loop page_num (pre @ rest) = enhanced_page_loop page_num rest"
  by (induction pre) auto

lemma existing_page_loop_skip:
  "(\<forall>(fn, f) \<in> set pre. \<not> page_file_name page_num fn) \<Longrightarrow>
   existing_page_loop page_num (pre @ rest) = existing_page_loop page_num rest"
  by (induction pre) auto

text \<open>
  Claim C3, as the code has it.  Both loaders take the first file of the directory
  listing whose name is \<^verbatim>\<open>page_<n>_....json\<close>; no status has priority.  From a
  structured document they return its item list, the status of its metadata and (the
  service's loader) the metadata; from a bare list they return the list with the
  status "completed" when the file name contains \<^verbatim>\<open>completed\<close> and "in\_progress"
  otherwise, and empty metadata.
\<close>

theorem load_page_first_listed:
  "results_dir s = Listing (pre @ (filename, Parsed data) # post) \<Longrightarrow>
   (\<forall>(fn, f) \<in> set pre. \<not> page_file_name page_num fn) \<Longrightarrow>
   page_file_name page_num filename \<Longrightarrow>
     (data = JObj d \<and> map_of d ''vcs'' = Some vcs \<and> map_of d ''metadata'' = Some (JObj m)
        \<and> map_of m ''status'' = Some st \<longrightarrow>
          load_page_with_enhanced_metadata s page_num = (vcs, st, JObj m)
          \<and> (has_len vcs \<longrightarrow> load_existing_page_data (results_dir s) page_num = (vcs, st)))
     \<and> (data = JList xs \<longrightarrow>
          load_page_with_enhanced_metadata s page_num
            = (JList xs,
               JStr (if str_contains filename ''completed'' then ''completed'' else ''in_progress''),
               JObj [])
          \<and> load_existing_page_data (results_dir s) page_num
            = (JList xs,
               JStr (if str_contains filename ''completed'' then ''completed'' else ''in_progress'')))"
  by (simp add: load_page_with_enhanced_metadata_def load_existing_page_data_def
      enhanced_page_loop_skip existing_page_loop_skip legacy_status_def dict_get_default_def)

theorem load_page_first_listed_witness:
  "load_page_with_enhanced_metadata
     \<lparr>results_dir = Listing
        [(''page_31_completed_1_vcs_090000.json'', Parsed (JList [JObj [(''vc_id'', JStr ''cedar'')]])),
         (''page_3_completed_1_vcs_101500.json'', Parsed (JList [JObj [(''vc_id'', JStr ''acme'')]])),
         (''page_3_in_progress_1_vcs_111000.json'',
          Parsed (JObj [(''metadata'', JObj [(''page_number'', JInt 3), (''status'', JStr ''in_progress'')]),
                        (''vcs'', JList [JObj [(''vc_id'', JStr ''birch'')]])]))],
      target_page = JNull, vc_status = [], completed_pages = {}\<rparr> 3
   = (JList [JObj [(''vc_id'', JStr ''acme'')]], JStr ''completed'', JObj [])
   \<and> load_existing_page_data (Listing
        [(''page_3_in_progress_1_vcs_111000.json'',
          Parsed (JObj [(''metadata'', JObj [(''page_number'', JInt 3), (''status'', JStr ''in_progress'')]),
                        (''vcs'', JList [JObj [(''vc_id'', JStr ''birch'')]])]))]) 3
   = (JList [JObj [(''vc_id'', JStr ''birch'')]], JStr ''in_progress'')"
proof -
  let ?legacy = "JList [JObj [(''vc_id'', JStr ''acme'')]]"
  let ?m = "[(''page_number'', JInt 3), (''status'', JStr ''in_progress'')]"
  let ?d = "[(''metadata'', JObj ?m), (''vcs'', JList [JObj [(''vc_id'', JStr ''birch'')]])]"
  let ?pre = "[(''page_31_completed_1_vcs_090000.json'', Parsed (JList [JObj [(''vc_id'', JStr ''cedar'')]]))]"
  let ?post = "[(''page_3_in_progress_1_vcs_111000.json'', Parsed (JObj ?d))]"
  let ?s1 = "\<lparr>results_dir = Listing (?pre @ (''page_3_completed_1_vcs_101500.json'', Parsed ?legacy) # ?post),
      target_page = JNull, vc_status = [], completed_pages = {}\<rparr>"
  let ?s2 = "\<lparr>results_dir = Listing ([] @ (''page_3_in_progress_1_vcs_111000.json'', Parsed (JObj ?d)) # []),
      target_page = JNull, vc_status = [], completed_pages = {}\<rparr>"
  have names: "\<not> page_file_name 3 ''page_31_completed_1_vcs_090000.json''"
    "page_file_name 3 ''page_3_completed_1_vcs_101500.json''"
    "page_file_name 3 ''page_3_in_progress_1_vcs_111000.json''"
    by (simp_all add: page_file_name_def startswith_def endswith_def str_int_def digit_char_def)
  have c: "str_contains ''page_3_completed_1_vcs_101500.json'' ''completed''"
    by (simp add: startswith_def)
  have r1: "results_dir ?s1 = Listing (?pre @ (''page_3_completed_1_vcs_101500.json'', Parsed ?legacy) # ?post)"
    by simp
  have r2: "results_dir ?s2 = Listing ([] @ (''page_3_in_progress_1_vcs_111000.json'', Parsed (JObj ?d)) # [])"
    by simp
  have p1: "\<forall>(fn, f) \<in> set ?pre. \<not> page_file_name 3 fn"
    using names by simp
  have p2: "\<forall>(fn, f) \<in> set ([] :: (string \<times> file_read) list). \<not> page_file_name 3 fn"
    by simp
  show ?thesis
    using c
      load_page_first_listed [OF r1 p1 names(2),
        where d = "[]" and vcs = JNull and m = "[]" and st = JNull
          and xs = "[JObj [(''vc_id'', JStr ''acme'')]]"]
      load_page_first_listed [OF r2 p2 names(3),
        where d = ?d and vcs = "JList [JObj [(''vc_id'', JStr ''birch'')]]" and m = ?m
          and st = "JStr ''in_progress''" and xs = "[]"]
    by simp
qed

text \<open>
  Claim C3 as stated fails: page 3 has an in-progress and a completed snapshot, the
  directory lists the in-progress one first, and both loaders return it.
\<close>

theorem load_page_priority_counterexample:
  "load_page_with_enhanced_metadata
     \<lparr>results_dir = Listing
        [(''page_3_in_progress_1_vcs_101500.json'',
          Parsed (JObj [(''metadata'', JObj [(''page_number'', JInt 3), (''status'', JStr ''in_progress'')]),
                        (''vcs'', JList [JObj [(''vc_id'', JStr ''acme'')]])])),
         (''page_3_completed_2_vcs_111000.json'',
          Parsed (JObj [(''metadata'', JObj [(''page_number'', JInt 3), (''status'', JStr ''completed'')]),
                        (''vcs'', JList [JObj [(''vc_id'', JStr ''acme'')],
                                         JObj [(''vc_id'', JStr ''birch'')]])]))],
      target_page = JNull, vc_status = [], completed_pages = {}\<rparr> 3
   = (JList [JObj [(''vc_id'', JStr ''acme'')]], JStr ''in_progress'',
      JObj [(''page_number'', JInt 3), (''status'', JStr ''in_progress'')])
  \<and> load_existing_page_data (Listing
        [(''page_3_in_progress_1_vcs_101500.json'',
          Parsed (JObj [(''metadata'', JObj [(''page_number'', JInt 3), (''status'', JStr ''in_progress'')]),
                        (''vcs'', JList [JObj [(''vc_id'', JStr ''acme'')]])])),
         (''page_3_completed_2_vcs_111000.json'',
          Parsed (JObj [(''metadata'', JObj [(''page_number'', JInt 3), (''status'', JStr ''completed'')]),
                        (''vcs'', JList [JObj [(''vc_id'', JStr ''acme'')],
                                         JObj [(''vc_id'', JStr ''birch'')]])]))]) 3
   = (JList [JObj [(''vc_id'', JStr ''acme'')]], JStr ''in_progress'')"
  by (simp add: load_page_with_enhanced_metadata_def load_existing_page_data_def page_file_name_def
      startswith_def endswith_def str_int_def digit_char_def dict_get_default_def)

section \<open>Properties of page completion\<close>

lemma length_filter_eq_iff:
  "length (filter P xs) = length xs \<longleftrightarrow> (\<forall>x \<in> set xs. P x)"
proof (induction xs)
  case Nil
  show ?case by simp
next
  case (Cons x xs)
  have "length (filter P xs) \<noteq> Suc (length xs)"
    using length_filter_le [of P xs] by linarith
  with Cons show ?case by auto
qed

lemma scraper_get_vc_status_member:
  "distinct (map fst (vc_status s)) \<Longrightarrow> (vc_id, data) \<in> set (vc_status s) \<Longrightarrow>
   scraper_get_vc_status s vc_id = status data"
  by (simp add: scraper_get_vc_status_def)

lemma all_completed_iff:
  assumes "distinct (map fst (vc_status s))"
  shows "length (filter (\<lambda>vc_id. scraper_get_vc_status s vc_id = ''completed'')
            (map fst (page_items s p))) = length (map fst (page_items s p))
         \<longleftrightarrow> (\<forall>(vc_id, data) \<in> set (page_items s p). status data = ''completed'')"
proof -
  have "\<And>vc_id data. (vc_id, data) \<in> set (page_items s p) \<Longrightarrow>
          scraper_get_vc_status s vc_id = status data"
    using assms by (simp add: page_items_def scraper_get_vc_status_member)
  then show ?thesis
    unfolding length_filter_eq_iff by fastforce
qed

text \<open>
  Claim C2, as the code has it.  \<^verbatim>\<open>vc_status\<close> is a dict, so its keys are distinct.
  For a page with at least one discovered item, the page is in \<^verbatim>\<open>completed_pages\<close>
  after \<^verbatim>\<open>_update_page_completion\<close> exactly when the status of every such item is
  "completed" (no other status counts), so a page that was completed and has an item
  of another status is removed.  For a page with no discovered item the call changes
  nothing: the page stays completed if it was.  No other page and no item changes.
\<close>

theorem update_page_completion_completed_only:
  "distinct (map fst (vc_status s)) \<Longrightarrow>
     (page_items s p \<noteq> [] \<longrightarrow>
        (p \<in> completed_pages (update_page_completion s p)
           \<longleftrightarrow> (\<forall>(vc_id, data) \<in> set (page_items s p). status data = ''completed'')))
     \<and> (page_items s p = [] \<longrightarrow> update_page_completion s p = s)
     \<and> (q \<noteq> p \<longrightarrow>
          (q \<in> completed_pages (update_page_completion s p) \<longleftrightarrow> q \<in> completed_pages s))
     \<and> vc_status (update_page_completion s p) = vc_status s"
proof -
  assume d: "distinct (map fst (vc_status s))"
  note ac = all_completed_iff [OF d, of p]
  show ?thesis
  proof (cases "page_items s p = []")
    case True
    then show ?thesis
      by (simp add: update_page_completion_def page_items_def [symmetric])
  next
    case False
    then show ?thesis
      using ac
      by (simp add: update_page_completion_def page_items_def [symmetric] Let_def)
  qed
qed

theorem update_page_completion_completed_only_witness:
  "distinct (map fst
      [(''acme'', \<lparr>status = ''completed'', url = ''https://h/investor_page/acme'', attempts = 1,
                   first_seen = ''t1'', last_updated = ''t2'', discovered_on_page = 1\<rparr>),
       (''birch'', \<lparr>status = ''completed'', url = ''https://h/investor_page/birch'', attempts = 2,
                   first_seen = ''t1'', last_updated = ''t3'', discovered_on_page = 1\<rparr>),
       (''cedar'', \<lparr>status = ''failed'', url = ''https://h/investor_page/cedar'', attempts = 1,
                   first_seen = ''t4'', last_updated = ''t5'', discovered_on_page = 2\<rparr>)])
   \<and> 1 \<in> completed_pages (update_page_completion
        \<lparr>results_dir = NoDirectory, target_page = JNull,
         vc_status =
           [(''acme'', \<lparr>status = ''completed'', url = ''https://h/investor_page/acme'', attempts = 1,
                   first_seen = ''t1'', last_updated = ''t2'', discovered_on_page = 1\<rparr>),
            (''birch'', \<lparr>status = ''completed'', url = ''https://h/investor_page/birch'', attempts = 2,
                   first_seen = ''t1'', last_updated = ''t3'', discovered_on_page = 1\<rparr>),
            (''cedar'', \<lparr>status = ''failed'', url = ''https://h/investor_page/cedar'', attempts = 1,
                   first_seen = ''t4'', last_updated = ''t5'', discovered_on_page = 2\<rparr>)],
         completed_pages = {2}\<rparr> 1)
   \<and> 2 \<notin> completed_pages (update_page_completion
        \<lparr>results_dir = NoDirectory, target_page = JNull,
         vc_status =
           [(''acme'', \<lparr>status = ''completed'', url = ''https://h/investor_page/acme'', attempts = 1,
                   first_seen = ''t1'', last_updated = ''t2'', discovered_on_page = 1\<rparr>),
            (''birch'', \<lparr>status = ''completed'', url = ''https://h/investor_page/birch'', attempts = 2,
                   first_seen = ''t1'', last_updated = ''t3'', discovered_on_page = 1\<rparr>),
            (''cedar'', \<lparr>status = ''failed'', url = ''https://h/investor_page/cedar'', attempts = 1,
                   first_seen = ''t4'', last_updated = ''t5'', discovered_on_page = 2\<rparr>)],
         completed_pages = {2}\<rparr> 2)"
proof -
  let ?vs = "[(''acme'', \<lparr>status = ''completed'', url = ''https://h/investor_page/acme'', attempts = 1,
                   first_seen = ''t1'', last_updated = ''t2'', discovered_on_page = 1\<rparr>),
       (''birch'', \<lparr>status = ''completed'', url = ''https://h/investor_page/birch'', attempts = 2,
                   first_seen = ''t1'', last_updated = ''t3'', discovered_on_page = 1\<rparr>),
       (''cedar'', \<lparr>status = ''failed'', url = ''https://h/investor_page/cedar'', attempts = 1,
                   first_seen = ''t4'', last_updated = ''t5'', discovered_on_page = 2\<rparr>)]"
  let ?s = "\<lparr>results_dir = NoDirectory, target_page = JNull, vc_status = ?vs,
             completed_pages = {2}\<rparr>"
  have d: "distinct (map fst (vc_status ?s))"
    by simp
  show ?thesis
    using d update_page_completion_completed_only [OF d, of 1 2]
      update_page_completion_completed_only [OF d, of 2 1]
    by (simp add: page_items_def)
qed

text \<open>
  Claim C2 as stated fails twice.  A page whose only item has the status "inactive",
  which the claim counts as terminal, is not marked completed.  A page with no
  discovered item that was in \<^verbatim>\<open>completed_pages\<close> (where \<^verbatim>\<open>save_page_progress\<close> puts
  pages directly) is still there after the call.
\<close>

theorem update_page_completion_counterexample:
  "1 \<notin> completed_pages (update_page_completion
      \<lparr>results_dir = NoDirectory, target_page = JNull,
       vc_status = [(''acme'', \<lparr>status = ''inactive'', url = ''https://h/investor_page/acme'',
                       attempts = 1, first_seen = ''t1'', last_updated = ''t2'',
                       discovered_on_page = 1\<rparr>)],
       completed_pages = {}\<rparr> 1)
   \<and> 2 \<in> completed_pages (update_page_completion
      \<lparr>results_dir = NoDirectory, target_page = JNull,
       vc_status = [(''acme'', \<lparr>status = ''inactive'', url = ''https://h/investor_page/acme'',
                       attempts = 1, first_seen = ''t1'', last_updated = ''t2'',
                       discovered_on_page = 1\<rparr>)],
       completed_pages = {2}\<rparr> 2)"
  by (simp add: update_page_completion_def scraper_get_vc_status_def)

section \<open>Properties of the resume planner\<close>

text \<open>
  On a directory of well-formed snapshots the planner answers the page of the
  in-progress snapshot listed last, else one past the highest completed page, else 1.
\<close>

lemma snapshot_meta_SomeD:
  "snapshot_meta f = Some (n, st) \<Longrightarrow>
   \<exists>d m. f = Parsed (JObj d) \<and> dict_get d ''metadata'' = JObj m
        \<and> dict_get m ''page_number'' = JInt n \<and> dict_get m ''status'' = JStr st"
  by (cases f rule: snapshot_meta.cases) (auto split: json.splits)

lemma state_scan_loop_step:
  assumes name: "startswith filename ''page_''" "endswith filename ''.json''"
    and meta: "snapshot_meta f = Some (n, st)"
  shows "state_scan_loop (done_pages, ip) ((filename, f) # rest) =
     (if st = ''in_progress'' then state_scan_loop (done_pages, JInt n) rest
      else if st = ''completed'' then state_scan_loop (done_pages @ [JInt n], ip) rest
      else state_scan_loop (done_pages, ip) rest)"
proof -
  from snapshot_meta_SomeD [OF meta] obtain d m where
    f: "f = Parsed (JObj d)" and md: "dict_get d ''metadata'' = JObj m"
    and pn: "dict_get m ''page_number'' = JInt n" and s: "dict_get m ''status'' = JStr st"
    by blast
  have present: "map_of d ''metadata'' \<noteq> None"
    using md by (auto simp: dict_get_def dict_get_default_def split: option.splits)
  show ?thesis
    using name present by (simp add: f md pn s Let_def)
qed

lemma pages_with_status_Cons:
  "pages_with_status st ((filename, f) # rest) =
     (if startswith filename ''page_'' \<and> endswith filename ''.json'' then
        (case snapshot_meta f of
           Some (n, st') \<Rightarrow> if st' = st then n # pages_with_status st rest
                            else pages_with_status st rest
         | None \<Rightarrow> pages_with_status st rest)
      else pages_with_status st rest)"
  by (simp add: pages_with_status_def map_filter_simps split: option.splits)

lemma state_scan_loop_wellformed:
  "snapshots_ok files \<Longrightarrow>
   state_scan_loop (done_pages, ip) files =
     Inr (done_pages @ map JInt (pages_with_status ''completed'' files),
          (if pages_with_status ''in_progress'' files = [] then ip
           else JInt (last (pages_with_status ''in_progress'' files))))"
proof (induction files arbitrary: done_pages ip)
  case Nil
  show ?case by (simp add: pages_with_status_def map_filter_simps)
next
  case (Cons a rest)
  obtain filename f where a: "a = (filename, f)" by (cases a)
  have rest: "snapshots_ok rest"
    using Cons.prems by (simp add: snapshots_ok_def)
  note IH = Cons.IH [OF rest]
  show ?case
  proof (cases "startswith filename ''page_'' \<and> endswith filename ''.json''")
    case False
    then have "state_scan_loop (done_pages, ip) ((filename, f) # rest)
        = state_scan_loop (done_pages, ip) rest"
      and "\<And>st. pages_with_status st ((filename, f) # rest) = pages_with_status st rest"
      by (auto simp: pages_with_status_Cons)
    then show ?thesis
      unfolding a by (simp only: IH)
  next
    case True
    then obtain n st where meta: "snapshot_meta f = Some (n, st)"
      using Cons.prems unfolding a by (auto simp: snapshots_ok_def)
    have step: "state_scan_loop (done_pages, ip) ((filename, f) # rest) =
       (if st = ''in_progress'' then state_scan_loop (done_pages, JInt n) rest
        else if st = ''completed'' then state_scan_loop (done_pages @ [JInt n], ip) rest
        else state_scan_loop (done_pages, ip) rest)"
      using True by (intro state_scan_loop_step [OF _ _ meta]) simp_all
    have pages: "\<And>st'. pages_with_status st' ((filename, f) # rest) =
       (if st = st' then n # pages_with_status st' rest else pages_with_status st' rest)"
      using True meta by (simp add: pages_with_status_Cons)
    show ?thesis
      unfolding a step pages by (simp add: IH)
  qed
qed

lemma py_max_Max: "py_max m xs = Max (set (m # xs))"
proof (induction xs arbitrary: m)
  case Nil
  show ?case by simp
next
  case (Cons x xs)
  have "Max (insert (if m < x then x else m) (set xs)) = Max (insert m (insert x (set xs)))"
    by (cases "set xs = {}") (auto simp: max_def)
  then show ?case by (simp add: Cons.IH)
qed

lemma those_py_num_JInt: "those (map py_num (map JInt ns)) = Some ns"
  by (induction ns) simp_all

lemma max_plus_one_JInt:
  "ns \<noteq> [] \<Longrightarrow> max_plus_one (map JInt ns) = Inr (JInt (Max (set ns) + 1))"
  using those_py_num_JInt [of ns]
  by (cases ns) (simp_all add: max_plus_one_def py_max_Max del: those.simps)

lemma choose_target_page_wellformed:
  "snapshots_ok files \<Longrightarrow>
   choose_target_page (Listing files) =
     (if pages_with_status ''in_progress'' files \<noteq> []
      then JInt (last (pages_with_status ''in_progress'' files))
      else if pages_with_status ''completed'' files \<noteq> []
      then JInt (Max (set (pages_with_status ''completed'' files)) + 1)
      else JInt 1)"
  by (simp add: choose_target_page_def scan_results_dir_def state_scan_loop_wellformed
      max_plus_one_JInt)

text \<open>
  The three examples of the specification: pages 1 and 2 completed give 3; page 1
  completed and page 2 in progress give 2; no snapshots give 1.
\<close>

lemma load_previous_state_examples:
  "snd (load_previous_state
     \<lparr>results_dir = Listing
        [(''page_1_completed_1_vcs_101500.json'',
          Parsed (JObj [(''metadata'', JObj [(''page_number'', JInt 1), (''status'', JStr ''completed'')]),
                        (''vcs'', JList [])])),
         (''page_2_completed_1_vcs_111000.json'',
          Parsed (JObj [(''metadata'', JObj [(''page_number'', JInt 2), (''status'', JStr ''completed'')]),
                        (''vcs'', JList [])]))],
      target_page = JNull, vc_status = [], completed_pages = {}\<rparr>) = JInt 3"
  "snd (load_previous_state
     \<lparr>results_dir = Listing
        [(''page_1_completed_1_vcs_101500.json'',
          Parsed (JObj [(''metadata'', JObj [(''page_number'', JInt 1), (''status'', JStr ''completed'')]),
                        (''vcs'', JList [])])),
         (''page_2_in_progress_1_vcs_111000.json'',
          Parsed (JObj [(''metadata'', JObj [(''page_number'', JInt 2), (''status'', JStr ''in_progress'')]),
                        (''vcs'', JList [])]))],
      target_page = JNull, vc_status = [], completed_pages = {}\<rparr>) = JInt 2"
  "snd (load_previous_state
     \<lparr>results_dir = Listing [], target_page = JNull, vc_status = [], completed_pages = {}\<rparr>)
     = JInt 1"
  "snd (load_previous_state
     \<lparr>results_dir = NoDirectory, target_page = JNull, vc_status = [], completed_pages = {}\<rparr>)
     = JInt 1"
  by (simp_all add: load_previous_state_def choose_target_page_def scan_results_dir_def
      startswith_def endswith_def dict_get_def dict_get_default_def max_plus_one_def Let_def)

text \<open>
  Claim C4 at two in-progress snapshots.  Pages 3 and 2 are both in progress and the
  directory lists page 3 first: the loop keeps the page number of the file it saw
  last, and the planner answers 2, not the highest in-progress page 3.
\<close>

theorem load_previous_state_last_listed_in_progress:
  "snd (load_previous_state
     \<lparr>results_dir = Listing
        [(''page_3_in_progress_1_vcs_101500.json'',
          Parsed (JObj [(''metadata'', JObj [(''page_number'', JInt 3), (''status'', JStr ''in_progress''),
                                             (''total_vcs'', JInt 1)]),
                        (''vcs'', JList [JObj [(''vc_id'', JStr ''acme'')]])])),
         (''page_2_in_progress_1_vcs_101000.json'',
          Parsed (JObj [(''metadata'', JObj [(''page_number'', JInt 2), (''status'', JStr ''in_progress''),
                                             (''total_vcs'', JInt 1)]),
                        (''vcs'', JList [JObj [(''vc_id'', JStr ''birch'')]])]))],
      target_page = JNull, vc_status = [], completed_pages = {}\<rparr>) = JInt 2"
  by (simp add: load_previous_state_def choose_target_page_def scan_results_dir_def
      startswith_def endswith_def dict_get_def dict_get_default_def max_plus_one_def Let_def)

end
